theory Spec2Isabelle
  imports Main "HOL-Library.Sublist"
begin

section \<open>The database inspector of scripts/check\_db.py\<close>

text \<open>
  The script walks a fixed dictionary of labelled SQLite files. For each one it prints a
  header, checks that the file exists, opens it read-only, prints the table names, samples
  the keys of the tables ItemTable and cursorDiskKV, reports every other non-empty table,
  and closes the connection. What lies outside the script (the file system, SQLite and the
  contents of the databases) is a parameter of the model; what the script does (its prints,
  its calls of connect and close) is recorded in an explicit state.
\<close>

subsection \<open>Values, exceptions and printed lines\<close>

text \<open>
  A value that SQLite hands to Python. REAL values are left out: the embedding has no
  floating point. Strings are byte strings (UTF-8).
\<close>

datatype sqlval = Null | Integer int | Text string | Blob string

text \<open>
  The exceptions the script can meet, each with its message. All of them are subclasses of
  Exception, so both handlers of the script catch them.
\<close>

datatype exn = SqliteError string | AttributeError string | TypeError string

fun str :: "exn \<Rightarrow> string" where
  "str (SqliteError m) = m"
| "str (AttributeError m) = m"
| "str (TypeError m) = m"

text \<open>
  One value per call of print, carrying what the f-string interpolates:
  \<^item> \<open>Header name path\<close> is the blank line and the line naming the candidate;
  \<^item> \<open>FileNotFound\<close> is the line FILE NOT FOUND;
  \<^item> \<open>Tables ts\<close> is the table listing;
  \<^item> \<open>ItemTableKeys n ks\<close> and \<open>CursorDiskKVKeys n ks\<close> are the key lines of the two
    key-value tables: the number of sampled keys and the keys shown;
  \<^item> \<open>ChatKeys ks\<close> is the line of chat-related keys;
  \<^item> \<open>TableLine t n cols\<close> is the line of a generic table;
  \<^item> \<open>ErrorLine m\<close> is the line ERROR: m.
\<close>

datatype line =
    Header string string
  | FileNotFound
  | Tables "string list"
  | ItemTableKeys nat "sqlval list"
  | CursorDiskKVKeys nat "sqlval list"
  | ChatKeys "sqlval list"
  | TableLine string nat "string list"
  | ErrorLine string

subsection \<open>Strings: lower and the substring test\<close>

text \<open>
  \<open>lower\<close> is str.lower on the ASCII letters. Python also lowers letters outside ASCII;
  none of them becomes a letter of the four substrings the script looks for, and in UTF-8
  they are bytes above 127, which \<open>lower\<close> leaves alone.
\<close>

definition lower_char :: "char \<Rightarrow> char" where
  "lower_char c =
     (case map_of (zip ''ABCDEFGHIJKLMNOPQRSTUVWXYZ'' ''abcdefghijklmnopqrstuvwxyz'') c of
        Some l \<Rightarrow> l
      | None \<Rightarrow> c)"

definition lower :: "string \<Rightarrow> string" where
  "lower s = map lower_char s"

text \<open>Python's \<open>needle in s\<close> on strings: does \<open>needle\<close> start at some position of \<open>s\<close>?\<close>

fun str_in :: "string \<Rightarrow> string \<Rightarrow> bool" where
  "str_in needle [] = (needle = [])"
| "str_in needle (c # cs) = (prefix needle (c # cs) \<or> str_in needle cs)"

text \<open>The condition of the comprehension over the ItemTable keys (line 24).\<close>

definition chat_like_item :: "string \<Rightarrow> bool" where
  "chat_like_item k =
     (str_in ''chat'' (lower k) \<or> str_in ''composer'' (lower k) \<or>
      str_in ''aichat'' (lower k) \<or> str_in ''bubble'' (lower k))"

text \<open>The condition of the comprehension over the cursorDiskKV keys (line 31).\<close>

definition chat_like_disk :: "string \<Rightarrow> bool" where
  "chat_like_disk k =
     (str_in ''composer'' (lower k) \<or> str_in ''bubble'' (lower k) \<or>
      str_in ''chat'' (lower k))"

text \<open>
  A key need not be a string. The first thing either condition evaluates is
  \<open>k.lower()\<close>: None and integers have no such attribute; bytes have one, and the
  test of a str in bytes then raises a TypeError.
\<close>

definition quoted :: "string \<Rightarrow> string" where
  "quoted s = CHR 0x27 # s @ [CHR 0x27]"

definition no_lower :: "string \<Rightarrow> exn" where
  "no_lower ty = AttributeError (quoted ty @ '' object has no attribute '' @ quoted ''lower'')"

definition str_in_bytes :: exn where
  "str_in_bytes = TypeError (''a bytes-like object is required, not '' @ quoted ''str'')"

fun on_key :: "(string \<Rightarrow> bool) \<Rightarrow> sqlval \<Rightarrow> exn + bool" where
  "on_key cond (Text s) = Inr (cond s)"
| "on_key cond Null = Inl (no_lower ''NoneType'')"
| "on_key cond (Integer i) = Inl (no_lower ''int'')"
| "on_key cond (Blob b) = Inl str_in_bytes"

text \<open>
  The list comprehension \<open>[k for k in keys if cond(k)]\<close>: it keeps the order of the keys
  and stops at the first key whose condition raises.
\<close>

fun chat_keys :: "(string \<Rightarrow> bool) \<Rightarrow> sqlval list \<Rightarrow> exn + sqlval list" where
  "chat_keys cond [] = Inr []"
| "chat_keys cond (k # ks) =
     (case on_key cond k of
        Inl e \<Rightarrow> Inl e
      | Inr b \<Rightarrow>
          (case chat_keys cond ks of
             Inl e \<Rightarrow> Inl e
           | Inr r \<Rightarrow> Inr (if b then k # r else r)))"

subsection \<open>The databases\<close>

text \<open>
  A stored table: its column names in schema order and its rows in the order the storage
  engine returns them.
\<close>

record table =
  columns :: "string list"
  rows :: "sqlval list list"

text \<open>
  The four statements the script executes: the catalog query, the key sample of a table
  with its LIMIT, the row count of a table and the column metadata of a table.
\<close>

datatype statement =
    SelectTableNames
  | SelectKeys string nat
  | CountRows string
  | TableInfo string

text \<open>
  An open database: the rows (type, name) of its schema catalog in the order a scan
  returns them, its tables by name, and the statements that fail for a reason outside the
  script (a locked or corrupt file, a file that is no database, a table name the bracket
  quoting does not protect), each with the exception it raises. The script only reads, so
  the database is a value.
\<close>

record db =
  sqlite_master :: "(string \<times> string) list"
  stored :: "string \<rightharpoonup> table"
  fault :: "statement \<Rightarrow> exn option"

definition select_table_names :: "db \<Rightarrow> exn + string list" where
  "select_table_names c =
     (case fault c SelectTableNames of
        Some e \<Rightarrow> Inl e
      | None \<Rightarrow> Inr (map snd (filter (\<lambda>r. fst r = ''table'') (sqlite_master c))))"

text \<open>Column names are matched without regard to case, as SQLite does.\<close>

fun key_index :: "string list \<Rightarrow> nat option" where
  "key_index [] = None"
| "key_index (c # cs) =
     (if lower c = ''key'' then Some 0 else map_option Suc (key_index cs))"

definition cell :: "sqlval list \<Rightarrow> nat \<Rightarrow> sqlval" where
  "cell r i = (if i < length r then r ! i else Null)"

definition select_keys :: "db \<Rightarrow> string \<Rightarrow> nat \<Rightarrow> exn + sqlval list" where
  "select_keys c t lim =
     (case fault c (SelectKeys t lim) of
        Some e \<Rightarrow> Inl e
      | None \<Rightarrow>
          (case stored c t of
             None \<Rightarrow> Inl (SqliteError (''no such table: '' @ t))
           | Some tb \<Rightarrow>
               (case key_index (columns tb) of
                  None \<Rightarrow> Inl (SqliteError ''no such column: key'')
                | Some i \<Rightarrow> Inr (map (\<lambda>r. cell r i) (take lim (rows tb))))))"

definition count_rows :: "db \<Rightarrow> string \<Rightarrow> exn + nat" where
  "count_rows c t =
     (case fault c (CountRows t) of
        Some e \<Rightarrow> Inl e
      | None \<Rightarrow>
          (case stored c t of
             None \<Rightarrow> Inl (SqliteError (''no such table: '' @ t))
           | Some tb \<Rightarrow> Inr (length (rows tb))))"

text \<open>The metadata statement yields no row, and no error, for a table that is absent.\<close>

definition table_info :: "db \<Rightarrow> string \<Rightarrow> exn + string list" where
  "table_info c t =
     (case fault c (TableInfo t) of
        Some e \<Rightarrow> Inl e
      | None \<Rightarrow> (case stored c t of None \<Rightarrow> Inr [] | Some tb \<Rightarrow> Inr (columns tb)))"

subsection \<open>The world and the state of a run\<close>

text \<open>
  The world answers \<open>os.path.exists\<close> and \<open>sqlite3.connect\<close> (by the URI passed to it).
\<close>

record world =
  path_exists :: "string \<Rightarrow> bool"
  connect :: "string \<Rightarrow> exn + db"

text \<open>
  The state: the lines printed so far, the URIs passed to \<open>sqlite3.connect\<close> so far, and
  the connections that were opened and not closed since (each by its URI).
\<close>

record state =
  out :: "line list"
  connects :: "string list"
  opened :: "string list"

definition init :: state where
  "init = \<lparr>out = [], connects = [], opened = []\<rparr>"

definition print :: "line \<Rightarrow> state \<Rightarrow> state" where
  "print l s = s\<lparr>out := out s @ [l]\<rparr>"

definition close :: "string \<Rightarrow> state \<Rightarrow> state" where
  "close uri s = s\<lparr>opened := remove1 uri (opened s)\<rparr>"

subsection \<open>The script\<close>

text \<open>
  A block of the try body returns the exception that left it, if any, and the state it
  reached. Lines 21 to 26: the ItemTable block.
\<close>

definition item_table_block :: "db \<Rightarrow> string list \<Rightarrow> state \<Rightarrow> exn option \<times> state" where
  "item_table_block c tables s =
     (if ''ItemTable'' \<in> set tables then
        (case select_keys c ''ItemTable'' 30 of
           Inl e \<Rightarrow> (Some e, s)
         | Inr keys \<Rightarrow>
             (let s1 = print (ItemTableKeys (length keys) (take 15 keys)) s in
              case chat_keys chat_like_item keys of
                Inl e \<Rightarrow> (Some e, s1)
              | Inr ck \<Rightarrow> (None, if ck \<noteq> [] then print (ChatKeys ck) s1 else s1)))
      else (None, s))"

text \<open>Lines 28 to 33: the cursorDiskKV block.\<close>

definition cursor_disk_block :: "db \<Rightarrow> string list \<Rightarrow> state \<Rightarrow> exn option \<times> state" where
  "cursor_disk_block c tables s =
     (if ''cursorDiskKV'' \<in> set tables then
        (case select_keys c ''cursorDiskKV'' 30 of
           Inl e \<Rightarrow> (Some e, s)
         | Inr keys \<Rightarrow>
             (let s1 = print (CursorDiskKVKeys (length keys) (take 15 keys)) s in
              case chat_keys chat_like_disk keys of
                Inl e \<Rightarrow> (Some e, s1)
              | Inr ck \<Rightarrow> (None, if ck \<noteq> [] then print (ChatKeys ck) s1 else s1)))
      else (None, s))"

text \<open>Lines 39 to 42: the body of the inner try.\<close>

definition describe :: "db \<Rightarrow> string \<Rightarrow> state \<Rightarrow> exn option \<times> state" where
  "describe c t s =
     (case count_rows c t of
        Inl e \<Rightarrow> (Some e, s)
      | Inr n \<Rightarrow>
          (if n > 0 then
             (case table_info c t of
                Inl e \<Rightarrow> (Some e, s)
              | Inr cols \<Rightarrow> (None, print (TableLine t n cols) s))
           else (None, s)))"

text \<open>
  Lines 37 to 44: one turn of the loop over the tables. The bare \<open>except: pass\<close> drops
  the exception and keeps the state.
\<close>

definition scan_table :: "db \<Rightarrow> string \<Rightarrow> state \<Rightarrow> state" where
  "scan_table c t s =
     (if t \<notin> set [''ItemTable'', ''cursorDiskKV''] then snd (describe c t s) else s)"

fun generic_scan :: "db \<Rightarrow> string list \<Rightarrow> state \<Rightarrow> state" where
  "generic_scan c [] s = s"
| "generic_scan c (t # ts) s = generic_scan c ts (scan_table c t s)"

text \<open>Lines 17 to 45: the body of the outer try, \<open>c.close()\<close> being its last statement.\<close>

definition uri_of :: "string \<Rightarrow> string" where
  "uri_of path = ''file:'' @ path @ ''?mode=ro''"

definition inspect :: "world \<Rightarrow> string \<Rightarrow> state \<Rightarrow> exn option \<times> state" where
  "inspect w path s =
     (let s0 = s\<lparr>connects := connects s @ [uri_of path]\<rparr> in
      case connect w (uri_of path) of
        Inl e \<Rightarrow> (Some e, s0)
      | Inr c \<Rightarrow>
          (let s1 = s0\<lparr>opened := opened s0 @ [uri_of path]\<rparr> in
           case select_table_names c of
             Inl e \<Rightarrow> (Some e, s1)
           | Inr tables \<Rightarrow>
               (case item_table_block c tables (print (Tables tables) s1) of
                  (Some e, s2) \<Rightarrow> (Some e, s2)
                | (None, s2) \<Rightarrow>
                    (case cursor_disk_block c tables s2 of
                       (Some e, s3) \<Rightarrow> (Some e, s3)
                     | (None, s3) \<Rightarrow>
                         (None, close (uri_of path) (generic_scan c tables s3))))))"

text \<open>Lines 12 to 47: one turn of the loop over the candidates.\<close>

definition candidate :: "world \<Rightarrow> string \<times> string \<Rightarrow> state \<Rightarrow> state" where
  "candidate w np s =
     (let s0 = print (Header (fst np) (snd np)) s in
      if \<not> path_exists w (snd np) then print FileNotFound s0
      else
        (case inspect w (snd np) s0 of
           (None, s1) \<Rightarrow> s1
         | (Some e, s1) \<Rightarrow> print (ErrorLine (str e)) s1))"

fun run :: "world \<Rightarrow> (string \<times> string) list \<Rightarrow> state \<Rightarrow> state" where
  "run w [] s = s"
| "run w (np # nps) s = run w nps (candidate w np s)"

text \<open>Lines 5 to 9: the dictionary, in insertion order.\<close>

definition state_vscdb :: "string \<Rightarrow> string" where
  "state_vscdb app =
     ''C:'' @ [CHR 0x5C] @ ''Users'' @ [CHR 0x5C] @ ''Administrator'' @ [CHR 0x5C] @
     ''AppData'' @ [CHR 0x5C] @ ''Roaming'' @ [CHR 0x5C] @ app @ [CHR 0x5C] @ ''User'' @
     [CHR 0x5C] @ ''globalStorage'' @ [CHR 0x5C] @ ''state.vscdb''"

definition dbs :: "(string \<times> string) list" where
  "dbs =
     [(''Trae CN'', state_vscdb ''Trae CN''),
      (''Trae'', state_vscdb ''Trae''),
      (''Windsurf'', state_vscdb ''Windsurf'')]"

definition main :: "world \<Rightarrow> state" where
  "main w = run w dbs init"

subsection \<open>Example databases\<close>

text \<open>
  Small databases and a world on which the script is run below: a healthy database whose
  table jobs cannot be counted, a file that is no database, a database whose ItemTable is
  locked, and one whose cursorDiskKV has no key column. The path gone does not exist;
  every other path exists, and a path that names none of the four databases cannot be
  opened.
\<close>

definition kv_table :: table where
  "kv_table =
     \<lparr>columns = [''key'', ''value''],
      rows = [[Text ''aiChat.history'', Blob ''x''], [Text ''settings'', Blob ''y''],
              [Text ''Composer.state'', Blob ''z'']]\<rparr>"

definition notes_table :: table where
  "notes_table =
     \<lparr>columns = [''id'', ''body''], rows = [[Integer 1, Text ''a''], [Integer 2, Text ''b'']]\<rparr>"

definition drafts_table :: table where
  "drafts_table = \<lparr>columns = [''id''], rows = []\<rparr>"

definition notes_db :: db where
  "notes_db =
     \<lparr>sqlite_master =
        [(''table'', ''ItemTable''), (''index'', ''sqlite_autoindex_ItemTable_1''),
         (''table'', ''notes''), (''table'', ''drafts''), (''table'', ''jobs'')],
      stored =
        [''ItemTable'' \<mapsto> kv_table, ''notes'' \<mapsto> notes_table, ''drafts'' \<mapsto> drafts_table,
         ''jobs'' \<mapsto> notes_table],
      fault = (\<lambda>q. if q = CountRows ''jobs'' then Some (SqliteError ''database is locked'') else None)\<rparr>"

definition junk_db :: db where
  "junk_db =
     \<lparr>sqlite_master = [], stored = Map.empty,
      fault = (\<lambda>q. Some (SqliteError ''file is not a database''))\<rparr>"

definition locked_db :: db where
  "locked_db =
     \<lparr>sqlite_master = [(''table'', ''ItemTable''), (''table'', ''cursorDiskKV''), (''table'', ''notes'')],
      stored = [''ItemTable'' \<mapsto> kv_table, ''cursorDiskKV'' \<mapsto> kv_table, ''notes'' \<mapsto> notes_table],
      fault = (\<lambda>q. if q = SelectKeys ''ItemTable'' 30 then Some (SqliteError ''database is locked'') else None)\<rparr>"

definition disk_db :: db where
  "disk_db =
     \<lparr>sqlite_master = [(''table'', ''cursorDiskKV''), (''table'', ''notes'')],
      stored = [''cursorDiskKV'' \<mapsto> drafts_table, ''notes'' \<mapsto> notes_table],
      fault = (\<lambda>q. None)\<rparr>"

definition example_world :: world where
  "example_world =
     \<lparr>path_exists = (\<lambda>p. p \<noteq> ''gone''),
      connect = (\<lambda>u.
        if u = uri_of ''state'' then Inr notes_db
        else if u = uri_of ''junk'' then Inr junk_db
        else if u = uri_of ''locked'' then Inr locked_db
        else if u = uri_of ''disk'' then Inr disk_db
        else Inl (SqliteError ''unable to open database file''))\<rparr>"

text \<open>
  A world for the three configured candidates: the file of Trae CN is absent, the file of
  Trae is a database without tables, and the file of Windsurf has an ItemTable of twelve
  rows, five of whose keys are chat-like.
\<close>

definition empty_db :: db where
  "empty_db = \<lparr>sqlite_master = [], stored = Map.empty, fault = (\<lambda>q. None)\<rparr>"

definition chat_table :: table where
  "chat_table =
     \<lparr>columns = [''key'', ''value''],
      rows =
        [[Text ''workbench.panel.aichat.view'', Blob ''''],
         [Text ''telemetry.firstSessionDate'', Blob ''''],
         [Text ''composer.composerData'', Blob ''''],
         [Text ''workbench.activity.pinnedViewlets2'', Blob ''''],
         [Text ''aiService.prompts'', Blob ''''],
         [Text ''chat.workspaceTransfer'', Blob ''''],
         [Text ''terminal.history.entries.commands'', Blob ''''],
         [Text ''memento/webviewView.Bubble'', Blob ''''],
         [Text ''extensionsAssistant/recommendations'', Blob ''''],
         [Text ''interactive.sessions'', Blob ''''],
         [Text ''workbench.view.Composer.state'', Blob ''''],
         [Text ''storage.serviceMachineId'', Blob '''']]\<rparr>"

definition chat_db :: db where
  "chat_db =
     \<lparr>sqlite_master = [(''table'', ''ItemTable''), (''index'', ''sqlite_autoindex_ItemTable_1'')],
      stored = [''ItemTable'' \<mapsto> chat_table],
      fault = (\<lambda>q. None)\<rparr>"

definition configured_world :: world where
  "configured_world =
     \<lparr>path_exists = (\<lambda>p. p \<noteq> state_vscdb ''Trae CN''),
      connect = (\<lambda>u.
        if u = uri_of (state_vscdb ''Trae'') then Inr empty_db
        else if u = uri_of (state_vscdb ''Windsurf'') then Inr chat_db
        else Inl (SqliteError ''unable to open database file''))\<rparr>"

section \<open>Properties\<close>

subsection \<open>The substring test and the comprehension\<close>

lemma str_in_sublist: "str_in needle s = sublist needle s"
  by (induction s) (auto simp: sublist_Cons_right)

lemma aichat_chat: "str_in ''aichat'' s \<Longrightarrow> str_in ''chat'' s"
proof -
  assume "str_in ''aichat'' s"
  then obtain ps ss where "s = ps @ ''aichat'' @ ss"
    by (auto simp: str_in_sublist sublist_def)
  then have "s = (ps @ ''ai'') @ ''chat'' @ ss" by simp
  then show ?thesis unfolding str_in_sublist sublist_def by blast
qed

text \<open>On keys that are all strings the comprehension is the filter of the list.\<close>

lemma chat_keys_Text: "chat_keys cond (map Text ks) = Inr (map Text (filter cond ks))"
  by (induction ks) auto

subsection \<open>Every step only appends to the output\<close>

text \<open>
  No step reads what was printed before, so what a step prints from any state is what it
  prints from the empty one, and the blocks leave the rest of the state alone.
\<close>

lemma item_frame:
  "item_table_block c ts s =
     (fst (item_table_block c ts init), s\<lparr>out := out s @ out (snd (item_table_block c ts init))\<rparr>)"
  by (simp add: item_table_block_def print_def init_def Let_def split: sum.splits)

lemma cursor_frame:
  "cursor_disk_block c ts s =
     (fst (cursor_disk_block c ts init), s\<lparr>out := out s @ out (snd (cursor_disk_block c ts init))\<rparr>)"
  by (simp add: cursor_disk_block_def print_def init_def Let_def split: sum.splits)

lemma describe_frame:
  "describe c t s =
     (fst (describe c t init), s\<lparr>out := out s @ out (snd (describe c t init))\<rparr>)"
  by (simp add: describe_def print_def init_def split: sum.splits)

lemma scan_table_frame:
  "scan_table c t s = s\<lparr>out := out s @ out (scan_table c t init)\<rparr>"
  by (simp add: scan_table_def describe_frame [of c t s] init_def)

lemma generic_scan_frame:
  "generic_scan c ts s = s\<lparr>out := out s @ out (generic_scan c ts init)\<rparr>"
proof (induction ts arbitrary: s)
  case Nil
  show ?case by (simp add: init_def)
next
  case (Cons t ts)
  have "generic_scan c (t # ts) s = generic_scan c ts (scan_table c t s)" by simp
  also have "\<dots> = (scan_table c t s)\<lparr>out := out (scan_table c t s) @ out (generic_scan c ts init)\<rparr>"
    by (rule Cons.IH)
  also have "\<dots> = s\<lparr>out := out s @ out (scan_table c t init) @ out (generic_scan c ts init)\<rparr>"
    by (subst (1 2) scan_table_frame [of c t s]) simp
  also have "out (scan_table c t init) @ out (generic_scan c ts init) = out (generic_scan c (t # ts) init)"
    using Cons.IH [of "scan_table c t init"] by simp
  finally show ?case .
qed

lemma inspect_frame:
  "fst (inspect w p s) = fst (inspect w p init) \<and>
   out (snd (inspect w p s)) = out s @ out (snd (inspect w p init))"
proof (cases "connect w (uri_of p)")
  case (Inl e)
  then show ?thesis by (simp add: inspect_def init_def)
next
  case (Inr c)
  note conn = this
  show ?thesis
  proof (cases "select_table_names c")
    case (Inl e)
    with conn show ?thesis by (simp add: inspect_def init_def)
  next
    case (Inr tables)
    note names = this
    obtain r1 t1 where i: "item_table_block c tables init = (r1, t1)" by force
    have item: "item_table_block c tables s = (r1, s\<lparr>out := out s @ out t1\<rparr>)" for s
      by (subst item_frame) (simp add: i)
    obtain r2 t2 where d: "cursor_disk_block c tables init = (r2, t2)" by force
    have disk: "cursor_disk_block c tables s = (r2, s\<lparr>out := out s @ out t2\<rparr>)" for s
      by (subst cursor_frame) (simp add: d)
    define t3 where "t3 = generic_scan c tables init"
    have scan: "generic_scan c tables s = s\<lparr>out := out s @ out t3\<rparr>" for s
      unfolding t3_def by (rule generic_scan_frame)
    show ?thesis
      by (cases r1; cases r2)
         (simp_all add: inspect_def conn names item disk scan print_def close_def init_def)
  qed
qed

text \<open>The turn of the outer loop, with the two components of the try body named.\<close>

lemma candidate_unfold:
  "candidate w np s =
     (if \<not> path_exists w (snd np) then print FileNotFound (print (Header (fst np) (snd np)) s)
      else case fst (inspect w (snd np) (print (Header (fst np) (snd np)) s)) of
             None \<Rightarrow> snd (inspect w (snd np) (print (Header (fst np) (snd np)) s))
           | Some e \<Rightarrow>
               print (ErrorLine (str e))
                 (snd (inspect w (snd np) (print (Header (fst np) (snd np)) s))))"
  by (simp add: candidate_def Let_def split: prod.splits option.splits)

lemma candidate_frame: "out (candidate w np s) = out s @ out (candidate w np init)"
proof -
  define r where "r = fst (inspect w (snd np) init)"
  define t where "t = snd (inspect w (snd np) init)"
  have f: "fst (inspect w (snd np) s) = r" for s
    unfolding r_def using inspect_frame [of w "snd np" s] by simp
  have o: "out (snd (inspect w (snd np) s)) = out s @ out t" for s
    unfolding t_def using inspect_frame [of w "snd np" s] by simp
  show ?thesis
    by (cases r) (simp_all add: candidate_unfold f o print_def init_def)
qed

lemma run_out:
  "out (run w nps s) = out s @ concat (map (\<lambda>np. out (candidate w np init)) nps)"
proof (induction nps arbitrary: s)
  case Nil
  show ?case by simp
next
  case (Cons np nps)
  show ?case
    by (simp add: Cons.IH candidate_frame [of w np s])
qed

subsection \<open>The chat-like filters\<close>

text \<open>
  Claim C6. For every key string, the chat-like filter flags the key if and only if at
  least one of the substrings chat, composer, aichat, bubble occurs somewhere in the
  lowercased key (\<open>sublist n s\<close> says that \<open>s = ps @ n @ ss\<close> for some \<open>ps\<close> and \<open>ss\<close>).
  This holds of both comprehensions of the script. The key MyChatSession is flagged, the
  key settings is not.
\<close>

theorem chat_filter_iff:
  "(chat_like_item k \<longleftrightarrow>
      sublist ''chat'' (lower k) \<or> sublist ''composer'' (lower k) \<or>
      sublist ''aichat'' (lower k) \<or> sublist ''bubble'' (lower k)) \<and>
   (chat_like_disk k \<longleftrightarrow>
      sublist ''chat'' (lower k) \<or> sublist ''composer'' (lower k) \<or>
      sublist ''aichat'' (lower k) \<or> sublist ''bubble'' (lower k)) \<and>
   chat_like_item ''MyChatSession'' \<and> \<not> chat_like_item ''settings'' \<and>
   chat_like_disk ''MyChatSession'' \<and> \<not> chat_like_disk ''settings''"
proof -
  have item: "chat_like_item k \<longleftrightarrow>
      sublist ''chat'' (lower k) \<or> sublist ''composer'' (lower k) \<or>
      sublist ''aichat'' (lower k) \<or> sublist ''bubble'' (lower k)"
    by (simp only: chat_like_item_def str_in_sublist)
  have disk: "chat_like_disk k \<longleftrightarrow>
      sublist ''chat'' (lower k) \<or> sublist ''composer'' (lower k) \<or>
      sublist ''aichat'' (lower k) \<or> sublist ''bubble'' (lower k)"
    using aichat_chat [of "lower k"]
    by (auto simp only: chat_like_disk_def str_in_sublist)
  have yes: "chat_like_item ''MyChatSession''" "chat_like_disk ''MyChatSession''"
    by (simp_all add: chat_like_item_def chat_like_disk_def lower_def lower_char_def)
  have no: "\<not> chat_like_item ''settings''" "\<not> chat_like_disk ''settings''"
    by (simp_all add: chat_like_item_def chat_like_disk_def lower_def lower_char_def)
  from item disk yes no show ?thesis by blast
qed

text \<open>
  Claim C10. The two filters select the same keys: the condition on the ItemTable keys
  and the condition on the cursorDiskKV keys, which leaves aichat out, agree on every key
  string, because a string that contains aichat contains chat.
\<close>

theorem chat_filters_equal: "chat_like_item k = chat_like_disk k"
  using aichat_chat [of "lower k"] by (auto simp: chat_like_item_def chat_like_disk_def)

subsection \<open>The output of one candidate\<close>

lemma generic_scan_append:
  "generic_scan c (ts1 @ ts2) s = generic_scan c ts2 (generic_scan c ts1 s)"
  by (induction ts1 arbitrary: s) simp_all

lemma candidate_out_opened:
  assumes "path_exists w p" and "connect w (uri_of p) = Inr c"
    and "select_table_names c = Inr tables"
  shows "out (candidate w (n, p) s) =
           out s @ Header n p # Tables tables # out (snd (item_table_block c tables init)) @
           (case fst (item_table_block c tables init) of
              Some e \<Rightarrow> [ErrorLine (str e)]
            | None \<Rightarrow>
                out (snd (cursor_disk_block c tables init)) @
                (case fst (cursor_disk_block c tables init) of
                   Some e \<Rightarrow> [ErrorLine (str e)]
                 | None \<Rightarrow> out (generic_scan c tables init)))"
proof -
  obtain r1 t1 where i: "item_table_block c tables init = (r1, t1)" by force
  have item: "item_table_block c tables s = (r1, s\<lparr>out := out s @ out t1\<rparr>)" for s
    by (subst item_frame) (simp add: i)
  obtain r2 t2 where d: "cursor_disk_block c tables init = (r2, t2)" by force
  have disk: "cursor_disk_block c tables s = (r2, s\<lparr>out := out s @ out t2\<rparr>)" for s
    by (subst cursor_frame) (simp add: d)
  define t3 where "t3 = generic_scan c tables init"
  have scan: "generic_scan c tables s = s\<lparr>out := out s @ out t3\<rparr>" for s
    unfolding t3_def by (rule generic_scan_frame)
  have oi: "out init = []" by (simp add: init_def)
  show ?thesis
    by (cases r1; cases r2)
       (simp_all add: candidate_def inspect_def assms item disk scan i d t3_def [symmetric]
          print_def close_def oi)
qed


text \<open>Only the listing prints a \<open>Tables\<close> line.\<close>

lemma item_no_tables: "Tables ts \<notin> set (out (snd (item_table_block c tables init)))"
  by (simp add: item_table_block_def print_def init_def Let_def split: sum.splits)

lemma cursor_no_tables: "Tables ts \<notin> set (out (snd (cursor_disk_block c tables init)))"
  by (simp add: cursor_disk_block_def print_def init_def Let_def split: sum.splits)

lemma scan_table_no_tables: "Tables ts \<notin> set (out (scan_table c t init))"
  by (simp add: scan_table_def describe_def print_def init_def split: sum.splits)

lemma generic_scan_no_tables: "Tables ts \<notin> set (out (generic_scan c tables init))"
proof (induction tables)
  case Nil
  show ?case by (simp add: init_def)
next
  case (Cons t tables)
  have "out (generic_scan c (t # tables) init) =
          out (scan_table c t init) @ out (generic_scan c tables init)"
    using generic_scan_frame [of c tables "scan_table c t init"] by simp
  with Cons show ?case by (simp add: scan_table_no_tables)
qed

text \<open>The definitions a run of the script on a concrete world unfolds.\<close>

lemmas script_defs =
  candidate_def inspect_def uri_of_def init_def print_def close_def select_table_names_def
  item_table_block_def cursor_disk_block_def select_keys_def cell_def lower_def lower_char_def
  chat_like_item_def chat_like_disk_def scan_table_def describe_def count_rows_def table_info_def

lemmas example_defs =
  example_world_def notes_db_def junk_db_def locked_db_def disk_db_def kv_table_def
  notes_table_def drafts_table_def

subsection \<open>A missing file\<close>

text \<open>
  Claim C3. For a candidate whose path does not exist, the script prints the header and
  FILE NOT FOUND and nothing else, and it does not call connect: the state after the
  candidate is the state before it with these two lines appended, so the list of connection
  attempts and the open connections are as they were.
\<close>

theorem missing_file:
  assumes "\<not> path_exists w p"
  shows "candidate w (n, p) s = s\<lparr>out := out s @ [Header n p, FileNotFound]\<rparr> \<and>
         connects (candidate w (n, p) s) = connects s"
  using assms by (simp add: candidate_def print_def)

theorem missing_file_witness:
  "\<not> path_exists example_world ''gone'' \<and>
   candidate example_world (''Windsurf'', ''gone'') init =
     \<lparr>out = [Header ''Windsurf'' ''gone'', FileNotFound], connects = [], opened = []\<rparr>"
  using missing_file [of example_world "''gone''" "''Windsurf''" init]
  by (simp add: example_world_def init_def)

subsection \<open>The table listing\<close>

text \<open>
  Claim C4. For a candidate whose file exists and whose connection opens: when the catalog
  query succeeds, the line after the header lists exactly the names of the catalog rows of
  type table, in catalog order, and no later line of the candidate is a table listing;
  when the catalog query raises, no listing is printed and the error line follows the
  header.
\<close>

theorem table_list_is_catalog:
  assumes "path_exists w p" and "connect w (uri_of p) = Inr c"
  shows "(fault c SelectTableNames = None \<longrightarrow>
            (\<exists>rest. out (candidate w (n, p) s) =
                      out s @ Header n p #
                      Tables (map snd (filter (\<lambda>r. fst r = ''table'') (sqlite_master c))) # rest \<and>
                    (\<forall>ts. Tables ts \<notin> set rest))) \<and>
         (\<forall>e. fault c SelectTableNames = Some e \<longrightarrow>
            out (candidate w (n, p) s) = out s @ [Header n p, ErrorLine (str e)])"
proof (intro conjI impI allI)
  assume ok: "fault c SelectTableNames = None"
  define tables where "tables = map snd (filter (\<lambda>r. fst r = ''table'') (sqlite_master c))"
  have names: "select_table_names c = Inr tables"
    by (simp add: select_table_names_def ok tables_def)
  define rest where "rest =
      out (snd (item_table_block c tables init)) @
      (case fst (item_table_block c tables init) of
         Some e \<Rightarrow> [ErrorLine (str e)]
       | None \<Rightarrow>
           out (snd (cursor_disk_block c tables init)) @
           (case fst (cursor_disk_block c tables init) of
              Some e \<Rightarrow> [ErrorLine (str e)]
            | None \<Rightarrow> out (generic_scan c tables init)))"
  have "out (candidate w (n, p) s) = out s @ Header n p # Tables tables # rest"
    unfolding rest_def by (rule candidate_out_opened [OF assms names])
  moreover have "Tables ts \<notin> set rest" for ts
    by (simp add: rest_def item_no_tables cursor_no_tables generic_scan_no_tables
        split: option.splits)
  ultimately show "\<exists>rest. out (candidate w (n, p) s) =
      out s @ Header n p #
      Tables (map snd (filter (\<lambda>r. fst r = ''table'') (sqlite_master c))) # rest \<and>
      (\<forall>ts. Tables ts \<notin> set rest)"
    unfolding tables_def by blast
next
  fix e
  assume "fault c SelectTableNames = Some e"
  then show "out (candidate w (n, p) s) = out s @ [Header n p, ErrorLine (str e)]"
    using assms by (simp add: candidate_def inspect_def select_table_names_def print_def)
qed

theorem table_list_is_catalog_witness:
  "path_exists example_world ''state'' \<and>
   connect example_world (uri_of ''state'') = Inr notes_db \<and>
   fault notes_db SelectTableNames = None \<and>
   (\<exists>rest. out (candidate example_world (''Windsurf'', ''state'') init) =
      Header ''Windsurf'' ''state'' #
      Tables [''ItemTable'', ''notes'', ''drafts'', ''jobs''] # rest)"
proof -
  have a: "path_exists example_world ''state''" by (simp add: example_world_def)
  have b: "connect example_world (uri_of ''state'') = Inr notes_db"
    by (simp add: example_world_def uri_of_def)
  have c: "fault notes_db SelectTableNames = None" by (simp add: notes_db_def)
  have d: "map snd (filter (\<lambda>r. fst r = ''table'') (sqlite_master notes_db)) =
           [''ItemTable'', ''notes'', ''drafts'', ''jobs'']"
    by (simp add: notes_db_def)
  from table_list_is_catalog [OF a b, of "''Windsurf''" init] c d a b show ?thesis
    by (auto simp: init_def)
qed

subsection \<open>The two key-value tables\<close>



subsection \<open>Generic tables\<close>



text \<open>
  Claim C8. When the row count or the column metadata of a table raises during the scan,
  the exception is dropped: the state, and with it the output, is unchanged by that table,
  and the scan of a list of tables gives what it gives with that table left out, so the
  tables after it are scanned as usual.
\<close>

theorem generic_errors_are_silent:
  assumes "count_rows c t = Inl e \<or> (\<exists>n. count_rows c t = Inr n \<and> 0 < n \<and> table_info c t = Inl e)"
  shows "scan_table c t s = s \<and>
         generic_scan c (ts1 @ t # ts2) s = generic_scan c (ts1 @ ts2) s"
proof -
  have "scan_table c t s = s" for s
    using assms by (auto simp: scan_table_def describe_def)
  then show ?thesis by (simp add: generic_scan_append)
qed

theorem generic_errors_are_silent_witness:
  "count_rows notes_db ''jobs'' = Inl (SqliteError ''database is locked'') \<and>
   scan_table notes_db ''jobs'' init = init \<and>
   generic_scan notes_db ([''notes''] @ ''jobs'' # [''drafts'']) init =
     generic_scan notes_db ([''notes''] @ [''drafts'']) init"
proof -
  have a: "count_rows notes_db ''jobs'' = Inl (SqliteError ''database is locked'')"
    by (simp add: count_rows_def notes_db_def)
  from generic_errors_are_silent
         [where c = notes_db and t = "''jobs''" and e = "SqliteError ''database is locked''"
            and s = init and ?ts1.0 = "[''notes'']" and ?ts2.0 = "[''drafts'']"] a
  show ?thesis by blast
qed

subsection \<open>Errors of the key-value tables\<close>

text \<open>
  Claim C9. The key samples are not inside the inner try. When the key sample of ItemTable
  raises, the candidate prints the header, the listing and the error line, and nothing of
  cursorDiskKV or of the generic scan. When the ItemTable block passes and the key sample
  of cursorDiskKV raises, the candidate prints the header, the listing, the lines of the
  ItemTable block and the error line, and nothing of the generic scan.
\<close>

theorem special_table_error_aborts_candidate:
  assumes "path_exists w p" and "connect w (uri_of p) = Inr c"
    and "select_table_names c = Inr tables"
  shows "(''ItemTable'' \<in> set tables \<and> select_keys c ''ItemTable'' 30 = Inl e \<longrightarrow>
            out (candidate w (n, p) s) = out s @ [Header n p, Tables tables, ErrorLine (str e)]) \<and>
         (fst (item_table_block c tables init) = None \<and> ''cursorDiskKV'' \<in> set tables \<and>
          select_keys c ''cursorDiskKV'' 30 = Inl e \<longrightarrow>
            out (candidate w (n, p) s) =
              out s @ [Header n p, Tables tables] @ out (snd (item_table_block c tables init)) @
              [ErrorLine (str e)])"
proof (intro conjI impI)
  assume "''ItemTable'' \<in> set tables \<and> select_keys c ''ItemTable'' 30 = Inl e"
  then have "item_table_block c tables init = (Some e, init)"
    by (simp add: item_table_block_def)
  then show "out (candidate w (n, p) s) = out s @ [Header n p, Tables tables, ErrorLine (str e)]"
    by (simp add: candidate_out_opened [OF assms] init_def)
next
  assume h: "fst (item_table_block c tables init) = None \<and> ''cursorDiskKV'' \<in> set tables \<and>
          select_keys c ''cursorDiskKV'' 30 = Inl e"
  then have "cursor_disk_block c tables init = (Some e, init)"
    by (simp add: cursor_disk_block_def)
  with h show "out (candidate w (n, p) s) =
      out s @ [Header n p, Tables tables] @ out (snd (item_table_block c tables init)) @
      [ErrorLine (str e)]"
    by (simp add: candidate_out_opened [OF assms] init_def)
qed

theorem special_table_error_aborts_candidate_witness:
  "path_exists example_world ''locked'' \<and>
   connect example_world (uri_of ''locked'') = Inr locked_db \<and>
   select_table_names locked_db = Inr [''ItemTable'', ''cursorDiskKV'', ''notes''] \<and>
   select_keys locked_db ''ItemTable'' 30 = Inl (SqliteError ''database is locked'') \<and>
   out (candidate example_world (''Trae'', ''locked'') init) =
     [Header ''Trae'' ''locked'', Tables [''ItemTable'', ''cursorDiskKV'', ''notes''],
      ErrorLine ''database is locked''] \<and>
   path_exists example_world ''disk'' \<and>
   connect example_world (uri_of ''disk'') = Inr disk_db \<and>
   select_table_names disk_db = Inr [''cursorDiskKV'', ''notes''] \<and>
   fst (item_table_block disk_db [''cursorDiskKV'', ''notes''] init) = None \<and>
   select_keys disk_db ''cursorDiskKV'' 30 = Inl (SqliteError ''no such column: key'') \<and>
   out (candidate example_world (''Windsurf'', ''disk'') init) =
     [Header ''Windsurf'' ''disk'', Tables [''cursorDiskKV'', ''notes''],
      ErrorLine ''no such column: key'']"
proof -
  have a: "path_exists example_world ''locked''" "path_exists example_world ''disk''"
    by (simp_all add: example_world_def)
  have b: "connect example_world (uri_of ''locked'') = Inr locked_db"
    "connect example_world (uri_of ''disk'') = Inr disk_db"
    by (simp_all add: example_world_def uri_of_def)
  have c: "select_table_names locked_db = Inr [''ItemTable'', ''cursorDiskKV'', ''notes'']"
    "select_table_names disk_db = Inr [''cursorDiskKV'', ''notes'']"
    by (simp_all add: select_table_names_def locked_db_def disk_db_def)
  have d: "select_keys locked_db ''ItemTable'' 30 = Inl (SqliteError ''database is locked'')"
    by (simp add: select_keys_def locked_db_def)
  have d': "select_keys disk_db ''cursorDiskKV'' 30 = Inl (SqliteError ''no such column: key'')"
    by (simp add: select_keys_def disk_db_def drafts_table_def lower_def lower_char_def)
  have i: "item_table_block disk_db [''cursorDiskKV'', ''notes''] init = (None, init)"
    by (simp add: item_table_block_def)
  from special_table_error_aborts_candidate
         [OF a(1) b(1) c(1), where e = "SqliteError ''database is locked''" and n = "''Trae''"
            and s = init]
       special_table_error_aborts_candidate
         [OF a(2) b(2) c(2), where e = "SqliteError ''no such column: key''"
            and n = "''Windsurf''" and s = init]
       a b c d d' i
  show ?thesis by (simp add: init_def)
qed

subsection \<open>Runs on the example world\<close>

lemma out_init: "out init = []"
  by (simp add: init_def)

lemma gone_state:
  "candidate example_world (n, ''gone'') s = s\<lparr>out := out s @ [Header n ''gone'', FileNotFound]\<rparr>"
  by (simp add: candidate_def example_world_def print_def)

lemma junk_state:
  "candidate example_world (n, ''junk'') s =
     s\<lparr>out := out s @ [Header n ''junk'', ErrorLine ''file is not a database''],
       connects := connects s @ [uri_of ''junk''],
       opened := opened s @ [uri_of ''junk'']\<rparr>"
  by (simp add: candidate_def inspect_def example_world_def junk_db_def uri_of_def print_def
      select_table_names_def)


lemma state_state:
  "candidate example_world (''Windsurf'', ''state'') init =
     \<lparr>out = [Header ''Windsurf'' ''state'', Tables [''ItemTable'', ''notes'', ''drafts'', ''jobs''],
             ItemTableKeys 3 [Text ''aiChat.history'', Text ''settings'', Text ''Composer.state''],
             ChatKeys [Text ''aiChat.history'', Text ''Composer.state''],
             TableLine ''notes'' 2 [''id'', ''body'']],
      connects = [''file:state?mode=ro''], opened = []\<rparr>"
  by (simp add: script_defs example_defs)

subsection \<open>Errors stay inside their candidate\<close>



subsection \<open>The connection after an error\<close>

text \<open>
  The call of close is the last statement of the try body. After a candidate whose
  connection opened, the connection is closed when the try body ended normally, and it is
  still open when the try body raised.
\<close>

theorem opened_after_candidate:
  assumes "path_exists w p" and "connect w (uri_of p) = Inr c"
  shows "opened (candidate w (n, p) s) =
           (case fst (inspect w p init) of
              Some e \<Rightarrow> opened s @ [uri_of p]
            | None \<Rightarrow> remove1 (uri_of p) (opened s @ [uri_of p]))"
proof (cases "select_table_names c")
  case (Inl e)
  with assms show ?thesis by (simp add: candidate_def inspect_def print_def)
next
  case (Inr tables)
  note names = this
  obtain r1 t1 where i: "item_table_block c tables init = (r1, t1)" by force
  have item: "item_table_block c tables s = (r1, s\<lparr>out := out s @ out t1\<rparr>)" for s
    by (subst item_frame) (simp add: i)
  obtain r2 t2 where d: "cursor_disk_block c tables init = (r2, t2)" by force
  have disk: "cursor_disk_block c tables s = (r2, s\<lparr>out := out s @ out t2\<rparr>)" for s
    by (subst cursor_frame) (simp add: d)
  define t3 where "t3 = generic_scan c tables init"
  have scan: "generic_scan c tables s = s\<lparr>out := out s @ out t3\<rparr>" for s
    unfolding t3_def by (rule generic_scan_frame)
  show ?thesis
    by (cases r1; cases r2)
       (simp_all add: candidate_def inspect_def assms names item disk scan print_def close_def)
qed

theorem opened_after_candidate_witness:
  "path_exists example_world ''junk'' \<and>
   connect example_world (uri_of ''junk'') = Inr junk_db \<and>
   fst (inspect example_world ''junk'' init) = Some (SqliteError ''file is not a database'') \<and>
   opened (candidate example_world (''Trae CN'', ''junk'') init) = [uri_of ''junk'']"
proof -
  have a: "path_exists example_world ''junk''" by (simp add: example_world_def)
  have b: "connect example_world (uri_of ''junk'') = Inr junk_db"
    by (simp add: example_world_def uri_of_def)
  have c: "fst (inspect example_world ''junk'' init) = Some (SqliteError ''file is not a database'')"
    by (simp add: inspect_def b select_table_names_def junk_db_def)
  from opened_after_candidate [OF a b, of "''Trae CN''" init] a b c
  show ?thesis by (simp add: out_init init_def)
qed

text \<open>
  Claim C2 says that the connection of a candidate is released before the next candidate
  is processed, also when the inspection fails. The script does not do that. On the
  example world the file junk exists and opens, and its catalog query raises: after the
  candidate the connection is still open, and it is still open after the next candidate
  was processed. The candidate whose path is state, and whose inspection succeeds, closes
  its connection.
\<close>

theorem close_skipped_on_error:
  "path_exists example_world ''junk'' \<and>
   connect example_world (uri_of ''junk'') = Inr junk_db \<and>
   candidate example_world (''Trae CN'', ''junk'') init =
     \<lparr>out = [Header ''Trae CN'' ''junk'', ErrorLine ''file is not a database''],
      connects = [uri_of ''junk''], opened = [uri_of ''junk'']\<rparr> \<and>
   opened (run example_world [(''Trae CN'', ''junk''), (''Trae'', ''gone'')] init) =
     [uri_of ''junk''] \<and>
   opened (candidate example_world (''Windsurf'', ''state'') init) = []"
  by (simp add: junk_state gone_state state_state)
     (simp add: example_world_def uri_of_def init_def)

subsection \<open>The configured candidates\<close>

lemma uri_of_eq: "(uri_of a = uri_of b) = (a = b)"
  by (simp add: uri_of_def)

lemma chat_table_keys:
  "chat_keys chat_like_item
     [Text ''workbench.panel.aichat.view'', Text ''telemetry.firstSessionDate'',
      Text ''composer.composerData'', Text ''workbench.activity.pinnedViewlets2'',
      Text ''aiService.prompts'', Text ''chat.workspaceTransfer'',
      Text ''terminal.history.entries.commands'', Text ''memento/webviewView.Bubble'',
      Text ''extensionsAssistant/recommendations'', Text ''interactive.sessions'',
      Text ''workbench.view.Composer.state'', Text ''storage.serviceMachineId''] =
     Inr [Text ''workbench.panel.aichat.view'', Text ''composer.composerData'',
          Text ''chat.workspaceTransfer'', Text ''memento/webviewView.Bubble'',
          Text ''workbench.view.Composer.state'']"
  by code_simp

text \<open>
  The run of the script on its three configured candidates, in the world above: one section
  with FILE NOT FOUND, one with an empty table listing, and one that lists twelve keys and
  the five chat-like ones among them.
\<close>

theorem three_candidates:
  "out (main configured_world) =
     [Header ''Trae CN'' (state_vscdb ''Trae CN''), FileNotFound,
      Header ''Trae'' (state_vscdb ''Trae''), Tables [],
      Header ''Windsurf'' (state_vscdb ''Windsurf''), Tables [''ItemTable''],
      ItemTableKeys 12
        [Text ''workbench.panel.aichat.view'', Text ''telemetry.firstSessionDate'',
         Text ''composer.composerData'', Text ''workbench.activity.pinnedViewlets2'',
         Text ''aiService.prompts'', Text ''chat.workspaceTransfer'',
         Text ''terminal.history.entries.commands'', Text ''memento/webviewView.Bubble'',
         Text ''extensionsAssistant/recommendations'', Text ''interactive.sessions'',
         Text ''workbench.view.Composer.state'', Text ''storage.serviceMachineId''],
      ChatKeys [Text ''workbench.panel.aichat.view'', Text ''composer.composerData'',
          Text ''chat.workspaceTransfer'', Text ''memento/webviewView.Bubble'',
          Text ''workbench.view.Composer.state'']]"
proof -
  have keys: "select_keys chat_db ''ItemTable'' 30 =
      Inr [Text ''workbench.panel.aichat.view'', Text ''telemetry.firstSessionDate'',
         Text ''composer.composerData'', Text ''workbench.activity.pinnedViewlets2'',
         Text ''aiService.prompts'', Text ''chat.workspaceTransfer'',
         Text ''terminal.history.entries.commands'', Text ''memento/webviewView.Bubble'',
         Text ''extensionsAssistant/recommendations'', Text ''interactive.sessions'',
         Text ''workbench.view.Composer.state'', Text ''storage.serviceMachineId'']"
    by (simp add: select_keys_def chat_db_def chat_table_def cell_def lower_def lower_char_def)
  have item: "item_table_block chat_db [''ItemTable''] init =
      (None, init\<lparr>out :=
         [ItemTableKeys 12
        [Text ''workbench.panel.aichat.view'', Text ''telemetry.firstSessionDate'',
         Text ''composer.composerData'', Text ''workbench.activity.pinnedViewlets2'',
         Text ''aiService.prompts'', Text ''chat.workspaceTransfer'',
         Text ''terminal.history.entries.commands'', Text ''memento/webviewView.Bubble'',
         Text ''extensionsAssistant/recommendations'', Text ''interactive.sessions'',
         Text ''workbench.view.Composer.state'', Text ''storage.serviceMachineId''],
          ChatKeys [Text ''workbench.panel.aichat.view'', Text ''composer.composerData'',
            Text ''chat.workspaceTransfer'', Text ''memento/webviewView.Bubble'',
            Text ''workbench.view.Composer.state'']]\<rparr>)"
    unfolding item_table_block_def keys
    by (simp only: sum.case Let_def chat_table_keys) (simp add: print_def out_init)
  have disk: "cursor_disk_block chat_db [''ItemTable''] init = (None, init)"
    by (simp add: cursor_disk_block_def)
  have scan: "scan_table chat_db ''ItemTable'' init = init"
    by (simp add: scan_table_def)
  have paths: "state_vscdb ''Trae'' \<noteq> state_vscdb ''Trae CN''"
    "state_vscdb ''Windsurf'' \<noteq> state_vscdb ''Trae CN''"
    "state_vscdb ''Windsurf'' \<noteq> state_vscdb ''Trae''"
    by (simp_all add: state_vscdb_def)
  have c1: "out (candidate configured_world (''Trae CN'', state_vscdb ''Trae CN'') init) =
      [Header ''Trae CN'' (state_vscdb ''Trae CN''), FileNotFound]"
    by (simp add: candidate_def configured_world_def print_def out_init)
  have e2: "path_exists configured_world (state_vscdb ''Trae'')"
    "connect configured_world (uri_of (state_vscdb ''Trae'')) = Inr empty_db"
    "select_table_names empty_db = Inr []"
    by (simp_all add: configured_world_def paths select_table_names_def empty_db_def)
  have c2: "out (candidate configured_world (''Trae'', state_vscdb ''Trae'') init) =
      [Header ''Trae'' (state_vscdb ''Trae''), Tables []]"
    by (simp add: candidate_out_opened [OF e2] out_init item_table_block_def
        cursor_disk_block_def)
  have e3: "path_exists configured_world (state_vscdb ''Windsurf'')"
    "connect configured_world (uri_of (state_vscdb ''Windsurf'')) = Inr chat_db"
    "select_table_names chat_db = Inr [''ItemTable'']"
    by (simp_all add: configured_world_def paths uri_of_eq select_table_names_def chat_db_def)
  have c3: "out (candidate configured_world (''Windsurf'', state_vscdb ''Windsurf'') init) =
      [Header ''Windsurf'' (state_vscdb ''Windsurf''), Tables [''ItemTable''],
       ItemTableKeys 12
        [Text ''workbench.panel.aichat.view'', Text ''telemetry.firstSessionDate'',
         Text ''composer.composerData'', Text ''workbench.activity.pinnedViewlets2'',
         Text ''aiService.prompts'', Text ''chat.workspaceTransfer'',
         Text ''terminal.history.entries.commands'', Text ''memento/webviewView.Bubble'',
         Text ''extensionsAssistant/recommendations'', Text ''interactive.sessions'',
         Text ''workbench.view.Composer.state'', Text ''storage.serviceMachineId''],
       ChatKeys [Text ''workbench.panel.aichat.view'', Text ''composer.composerData'',
          Text ''chat.workspaceTransfer'', Text ''memento/webviewView.Bubble'',
          Text ''workbench.view.Composer.state'']]"
    by (simp add: candidate_out_opened [OF e3] item disk scan out_init)
  show ?thesis
    by (simp only: main_def dbs_def run_out) (simp add: c1 c2 c3 out_init)
qed

end
